theory Spec2Isabelle
  imports Complex_Main "HOL-Library.Log_Nat" "HOL-Library.Char_ord" "HOL-Library.List_Lexorder"
begin

section \<open>Python numbers\<close>

text \<open>
  Python's \<open>int\<close> is \<^typ>\<open>int\<close>. A Python \<open>float\<close> is an IEEE 754 binary64 number; a
  finite one is a rational, and this development represents it by that rational. Every
  arithmetic operation on floats computes the exact result and rounds it to the nearest
  binary64 number, ties to even (\<open>binary64\<close> below). Subnormal numbers are covered
  (the exponent is held at \<open>-1022\<close>); overflow to infinity is not, so the model is the
  program as long as every intermediate value stays below \<open>2 ^ 1024\<close> in magnitude, which
  holds for the 0..100 scores this program handles.
\<close>

definition round_half_even :: "rat \<Rightarrow> int" where
  "round_half_even x =
     (let f = \<lfloor>x\<rfloor>; d = x - of_int f
      in if d < 1 / 2 then f else if 1 / 2 < d then f + 1 else if even f then f else f + 1)"

text \<open>For \<open>x > 0\<close>, \<open>ilog2 x\<close> is the exponent \<open>e\<close> with \<open>2 ^ e \<le> x < 2 ^ (e + 1)\<close>.\<close>

definition ilog2 :: "rat \<Rightarrow> int" where
  "ilog2 x = (case quotient_of x of (p, q) \<Rightarrow>
      let e0 = bitlen p - bitlen q in if 2 powi e0 \<le> x then e0 else e0 - 1)"

text \<open>The spacing of binary64 numbers around \<open>x\<close>: 53 significant bits.\<close>

definition ulp :: "rat \<Rightarrow> rat" where
  "ulp x = 2 powi (max (ilog2 \<bar>x\<bar>) (- 1022) - 52)"

definition binary64 :: "rat \<Rightarrow> rat" where
  "binary64 x = (if x = 0 then 0 else of_int (round_half_even (x / ulp x)) * ulp x)"

definition float_add :: "rat \<Rightarrow> rat \<Rightarrow> rat" where
  "float_add x y = binary64 (x + y)"

definition float_sub :: "rat \<Rightarrow> rat \<Rightarrow> rat" where
  "float_sub x y = binary64 (x - y)"

definition float_mul :: "rat \<Rightarrow> rat \<Rightarrow> rat" where
  "float_mul x y = binary64 (x * y)"

definition float_div :: "rat \<Rightarrow> rat \<Rightarrow> rat" where
  "float_div x y = binary64 (x / y)"

text \<open>\<open>a / b\<close> on two Python ints: the exact quotient, correctly rounded.\<close>

definition int_truediv :: "int \<Rightarrow> int \<Rightarrow> rat" where
  "int_truediv a b = binary64 (of_int a / of_int b)"

text \<open>\<open>int(x)\<close> on a float truncates towards zero.\<close>

definition py_int :: "rat \<Rightarrow> int" where
  "py_int x = (if 0 \<le> x then \<lfloor>x\<rfloor> else \<lceil>x\<rceil>)"

text \<open>
  \<open>round(x, n)\<close> on a float: the exact value of \<open>x\<close> is rounded to \<open>n\<close> decimals, ties to
  even, and the decimal result is converted back to the nearest float.
\<close>

definition py_round :: "rat \<Rightarrow> nat \<Rightarrow> rat" where
  "py_round x n = binary64 (of_int (round_half_even (x * 10 ^ n)) / 10 ^ n)"


text \<open>\<open>min(a, b)\<close> and \<open>max(a, b)\<close> return the first argument unless the second is strictly better.\<close>

definition py_min :: "'a::linorder \<Rightarrow> 'a \<Rightarrow> 'a" where
  "py_min a b = (if b < a then b else a)"

definition py_max :: "'a::linorder \<Rightarrow> 'a \<Rightarrow> 'a" where
  "py_max a b = (if a < b then b else a)"

section \<open>Ownership verifier (\<open>github_auth.py\<close>, class \<open>GitHubCommitVerifier\<close>)\<close>

text \<open>
  A \<open>datetime\<close> object enters the verifier through two observations only: its position
  on the time line (here in microseconds since the epoch, which orders datetimes and gives
  \<open>(now - date).days\<close>), and its ISO week number \<open>date.isocalendar()[1]\<close>.
\<close>

record py_datetime =
  instant :: int
  isoweek :: nat

text \<open>
  One element of the commit list the code host returns. A field is \<open>None\<close> where the JSON
  lacks it (or, for the login, where the \<open>author\<close> object is null); \<open>commit_author_date\<close>
  is the parsed \<open>commit.author.date\<close>, \<open>None\<close> where that string is missing or empty.
\<close>

record commit =
  author_login :: "string option"
  commit_author_name :: "string option"
  commit_author_date :: "py_datetime option"

record 'a response =
  status_code :: nat
  json :: 'a

text \<open>
  The code host as the verifier sees it: the answer to each request it can make for the
  repository under verification.
\<close>

record github_api =
  get_commits :: "nat \<Rightarrow> commit list response"
  get_repo :: "unit response"
  get_contributor_stats :: "int option list response"

datatype request = GetRepo | GetContributorStats

definition lower_char :: "char \<Rightarrow> char" where
  "lower_char c = (if CHR ''A'' \<le> c \<and> c \<le> CHR ''Z'' then char_of (of_char c + (32::nat)) else c)"

definition lower :: "string \<Rightarrow> string" where
  "lower s = map lower_char s"

definition get_or :: "'a \<Rightarrow> 'a option \<Rightarrow> 'a" where
  "get_or d v = (case v of None \<Rightarrow> d | Some x \<Rightarrow> x)"

text \<open>The pagination loop of \<open>get_user_commits\<close>: it stops at a failed request, at an empty
  page, and after page 10.\<close>

function fetch_all_commits :: "github_api \<Rightarrow> nat \<Rightarrow> commit list \<Rightarrow> commit list" where
  "fetch_all_commits api all_page all_commits =
     (let response = get_commits api all_page
      in if status_code response \<noteq> 200 then all_commits
         else let page_commits = json response
              in if page_commits = [] then all_commits
                 else if all_page + 1 > 10 then all_commits @ page_commits
                 else fetch_all_commits api (all_page + 1) (all_commits @ page_commits))"
  by pat_completeness auto
termination
  by (relation "measure (\<lambda>(api, all_page, all_commits). 11 - all_page)") auto

definition commit_matches :: "string \<Rightarrow> commit \<Rightarrow> bool" where
  "commit_matches username c =
     (let commit_author = get_or [] (commit_author_name c);
          commit_login = get_or [] (author_login c)
      in lower commit_login = lower username \<or> lower commit_author = lower username)"

definition get_user_commits :: "github_api \<Rightarrow> string \<Rightarrow> commit list" where
  "get_user_commits api username = filter (commit_matches username) (fetch_all_commits api 1 [])"

definition calculate_consistency :: "py_datetime list \<Rightarrow> int" where
  "calculate_consistency commit_dates =
     (if length commit_dates < 2 then 0
      else let weeks = set (map isoweek commit_dates);
               consistency = float_mul (int_truediv (int (card weeks)) 52) 100
           in py_int (py_min 100 consistency))"

text \<open>\<open>(now - date).days\<close>: whole days, rounded towards minus infinity.\<close>

definition days_between :: "int \<Rightarrow> py_datetime \<Rightarrow> int" where
  "days_between now date = (now - instant date) div 86400000000"

definition calculate_activity_score :: "int \<Rightarrow> py_datetime list \<Rightarrow> int" where
  "calculate_activity_score now commit_dates =
     (if commit_dates = [] then 0
      else let recent_commits = length (filter (\<lambda>date. days_between now date \<le> 90) commit_dates);
               activity = float_mul (int_truediv (int recent_commits) 10) 100
           in py_int (py_min 100 activity))"

text \<open>
  \<open>_calculate_ownership_score\<close> returns the pair \<open>(ownership_score, total_commits)\<close>; the model
  also returns the requests it has sent, in order.
\<close>

definition calculate_ownership_score :: "github_api \<Rightarrow> int \<Rightarrow> (int \<times> int) \<times> request list" where
  "calculate_ownership_score api user_commits =
     (if status_code (get_repo api) \<noteq> 200 then ((0, 0), [GetRepo])
      else let response = get_contributor_stats api
           in if status_code response \<noteq> 200 then ((50, user_commits), [GetRepo, GetContributorStats])
              else let total_commits = sum_list (map (get_or 0) (json response))
                   in if total_commits = 0 then ((0, 0), [GetRepo, GetContributorStats])
                      else let ownership = float_mul (int_truediv user_commits total_commits) 100
                           in ((py_min 100 (py_int ownership), total_commits),
                               [GetRepo, GetContributorStats]))"

text \<open>
  The dictionary \<open>analyze_commit_pattern\<close> returns. The three keys \<open>first_commit\<close>,
  \<open>last_commit\<close> and \<open>commit_frequency\<close> exist on the main path only: \<open>timing\<close> is \<open>None\<close>
  in the early return.
\<close>

record verdict =
  user_commits :: int
  total_commits :: int
  ownership_score :: int
  activity_score :: int
  consistency_score :: int
  is_authentic :: bool
  timing :: "(py_datetime option \<times> py_datetime option \<times> rat) option"

fun min_datetime :: "py_datetime list \<Rightarrow> py_datetime option" where
  "min_datetime [] = None"
| "min_datetime (d # ds) = Some (foldl (\<lambda>m x. if instant x < instant m then x else m) d ds)"

fun max_datetime :: "py_datetime list \<Rightarrow> py_datetime option" where
  "max_datetime [] = None"
| "max_datetime (d # ds) = Some (foldl (\<lambda>m x. if instant m < instant x then x else m) d ds)"

definition commit_dates_of :: "commit list \<Rightarrow> py_datetime list" where
  "commit_dates_of commits = List.map_filter commit_author_date commits"

definition analyze_commit_pattern :: "github_api \<Rightarrow> int \<Rightarrow> string \<Rightarrow> verdict" where
  "analyze_commit_pattern api now username =
     (let commits = get_user_commits api username
      in if commits = [] then
           \<lparr>user_commits = 0, total_commits = 0, ownership_score = 0, activity_score = 0,
            consistency_score = 0, is_authentic = False, timing = None\<rparr>
         else
           let n = int (length commits);
               commit_dates = commit_dates_of commits;
               consistency = calculate_consistency commit_dates;
               activity = calculate_activity_score now commit_dates;
               (ownership, total) = fst (calculate_ownership_score api n)
           in \<lparr>user_commits = n, total_commits = total, ownership_score = ownership,
               activity_score = activity, consistency_score = consistency,
               is_authentic = (n \<ge> 5 \<and> consistency \<ge> 50 \<and> ownership \<ge> 20),
               timing = Some (min_datetime commit_dates, max_datetime commit_dates,
                              if commit_dates = [] then 0 else int_truediv n 365)\<rparr>)"

section \<open>Trust scorer (\<open>scorer.py\<close>, class \<open>TrustScorer\<close>)\<close>

text \<open>The weights \<open>0.40\<close>, \<open>0.40\<close> and \<open>0.20\<close> are float literals.\<close>

definition weight_off_chain :: rat where
  "weight_off_chain = binary64 (40 / 100)"

definition weight_on_chain :: rat where
  "weight_on_chain = binary64 (40 / 100)"

definition weight_ai_analysis :: rat where
  "weight_ai_analysis = binary64 (20 / 100)"

datatype risk_tier = LOW | MEDIUM | HIGH | CRITICAL

datatype confidence_tier = HIGH_CONFIDENCE | MEDIUM_CONFIDENCE | LOW_CONFIDENCE

record breakdown_entry =
  entry_score :: rat
  entry_weight :: rat
  entry_contribution :: rat

record trust_score =
  overall_score :: rat
  risk_level :: risk_tier
  investment_recommendation :: string
  confidence :: confidence_tier
  breakdown_off_chain :: breakdown_entry
  breakdown_on_chain :: breakdown_entry
  breakdown_ai_analysis :: breakdown_entry

text \<open>The local variable \<open>overall_score\<close>: the weighted sum before it is rounded for display.\<close>

definition weighted_score :: "rat \<Rightarrow> rat \<Rightarrow> rat \<Rightarrow> rat" where
  "weighted_score off_chain_score on_chain_score ai_score =
     float_add (float_add (float_mul off_chain_score weight_off_chain)
                          (float_mul on_chain_score weight_on_chain))
               (float_mul ai_score weight_ai_analysis)"

text \<open>
  \<open>sum((s - overall_score) ** 2 for s in scores) / len(scores)\<close>: \<open>sum\<close> starts from
  \<open>0\<close> and adds from the left; the square of a float is the rounded product.
\<close>

definition score_variance :: "rat \<Rightarrow> rat list \<Rightarrow> rat" where
  "score_variance centre scores =
     float_div (foldl float_add 0 (map (\<lambda>s. float_mul (float_sub s centre) (float_sub s centre)) scores))
               (of_nat (length scores))"

definition calculate_final_score :: "rat \<Rightarrow> rat \<Rightarrow> rat \<Rightarrow> trust_score" where
  "calculate_final_score off_chain_score on_chain_score ai_score =
     (let overall = weighted_score off_chain_score on_chain_score ai_score;
          (risk, recommendation) =
            (if overall \<ge> 80 then (LOW, ''RECOMMENDED'')
             else if overall \<ge> 60 then (MEDIUM, ''CONSIDER WITH CAUTION'')
             else if overall \<ge> 40 then (HIGH, ''HIGH RISK - ADDITIONAL DUE DILIGENCE REQUIRED'')
             else (CRITICAL, ''NOT RECOMMENDED''));
          scores = [off_chain_score, on_chain_score, ai_score];
          variance = score_variance overall scores;
          conf = (if variance < 100 then HIGH_CONFIDENCE
                  else if variance < 400 then MEDIUM_CONFIDENCE
                  else LOW_CONFIDENCE)
      in \<lparr>overall_score = py_round overall 2,
          risk_level = risk,
          investment_recommendation = recommendation,
          confidence = conf,
          breakdown_off_chain =
            \<lparr>entry_score = py_round off_chain_score 2,
             entry_weight = float_mul weight_off_chain 100,
             entry_contribution = py_round (float_mul off_chain_score weight_off_chain) 2\<rparr>,
          breakdown_on_chain =
            \<lparr>entry_score = py_round on_chain_score 2,
             entry_weight = float_mul weight_on_chain 100,
             entry_contribution = py_round (float_mul on_chain_score weight_on_chain) 2\<rparr>,
          breakdown_ai_analysis =
            \<lparr>entry_score = py_round ai_score 2,
             entry_weight = float_mul weight_ai_analysis 100,
             entry_contribution = py_round (float_mul ai_score weight_ai_analysis) 2\<rparr>\<rparr>)"

text \<open>
  The analysis results are a dictionary of dictionaries; \<open>_calculate_fraud_likelihood\<close> reads
  the numeric entry \<open>score\<close> of three of them, each lookup with its default.
\<close>

type_synonym analysis = "string \<rightharpoonup> rat"

type_synonym analysis_results = "string \<rightharpoonup> analysis"

definition analysis_score :: "analysis_results \<Rightarrow> string \<Rightarrow> rat" where
  "analysis_score results key = get_or 0 ((get_or Map.empty (results key)) ''score'')"

definition calculate_fraud_likelihood :: "analysis_results \<Rightarrow> int" where
  "calculate_fraud_likelihood results =
     (let fraud_score = 0;
          fraud_score = (if analysis_score results ''off_chain_analysis'' < 30
                         then fraud_score + 30 else fraud_score);
          fraud_score = (if analysis_score results ''on_chain_analysis'' < 20
                         then fraud_score + 40 else fraud_score);
          fraud_score = (if analysis_score results ''code_analysis'' < 20
                         then fraud_score + 30 else fraud_score)
      in py_min fraud_score 100)"

section \<open>Realtime scorer (\<open>realtime_scorer.py\<close>, class \<open>RealtimeScorer\<close>)\<close>

text \<open>
  A finding is an f-string: its template and the values it interpolates, in order. The
  rendering of a number as text plays no part in any score.
\<close>

datatype fvalue = Num rat | Str string

datatype finding = Finding string "fvalue list"

record scorer_result =
  rt_score :: rat
  rt_confidence :: rat
  rt_findings :: "finding list"
  rt_category :: string
  rt_details :: "(rat \<times> rat \<times> rat \<times> rat \<times> string) option"

text \<open>
  The input dictionaries, one record per dictionary, with the keys the scorers read. A
  numeric or string key that may be missing is an option; a key that is only tested for
  truth is a \<^typ>\<open>bool\<close>, \<open>False\<close> where it is missing. The social and the on-chain
  scorer test their dictionary itself for truth (\<open>if not social_data\<close>), and a dictionary
  is false only when it has no key at all; so these two records also list the keys the
  dictionary holds besides the ones the scorer reads.
\<close>

record repo_data =
  stars :: "rat option"
  commits :: "rat option"
  contributors :: "rat option"
  forks :: "rat option"
  openIssues :: "rat option"
  lastUpdate :: "string option"
  language :: "string option"

record github_data =
  github_success :: bool
  github_repo_data :: "repo_data option"

record twitter_data =
  followers :: "rat option"
  engagement_rate :: "rat option"

record social_data =
  twitter :: "twitter_data option"
  hackathons :: "string list option"
  community_mentions :: "rat option"
  social_other_keys :: "string list"

record founder_info =
  previousProjects :: "rat option"
  githubProfile :: bool

record founder_data =
  founder_success :: bool
  founder_info_data :: "founder_info option"

record governance_data =
  has_dao :: bool
  transparent_voting :: bool
  public_roadmap :: bool

record onchain_data =
  transaction_count :: "rat option"
  contract_interactions :: "rat option"
  token_value_usd :: "rat option"
  onchain_other_keys :: "string list"

record file_info =
  file_name :: "string option"
  has_metadata :: bool
  hash_verified :: bool
  manipulation_score :: "rat option"

record media_data =
  files :: "file_info list option"

text \<open>The running triple \<open>(score, findings, confidence)\<close> of a scorer, and one
  \<open>score += ds; findings.append(f); confidence += dc\<close> step on it.\<close>

type_synonym tally = "rat \<times> finding list \<times> rat"

definition credit :: "rat \<Rightarrow> finding \<Rightarrow> rat \<Rightarrow> tally \<Rightarrow> tally" where
  "credit ds f dc t =
     (case t of (sc, fs, cf) \<Rightarrow>
        (float_add sc (binary64 ds), fs @ [f], float_add cf (binary64 dc)))"

definition empty_repo_data :: repo_data where
  "empty_repo_data = \<lparr>stars = None, commits = None, contributors = None, forks = None,
     openIssues = None, lastUpdate = None, language = None\<rparr>"

definition analyze_github_realtime :: "github_data option \<Rightarrow> scorer_result" where
  "analyze_github_realtime github_data =
     (if (case github_data of None \<Rightarrow> True | Some g \<Rightarrow> \<not> github_success g) then
        \<lparr>rt_score = binary64 (5 / 10), rt_confidence = binary64 (3 / 10),
         rt_findings = [Finding ''No GitHub data available'' []],
         rt_category = ''tech_credibility'', rt_details = None\<rparr>
      else
        let data = get_or empty_repo_data (github_repo_data (the github_data));
            t = (0, [], 0);
            stars_v = get_or 0 (stars data);
            t = (if stars_v > 1000 then
                   credit (3 / 10) (Finding ''Strong community: {stars} stars'' [Num stars_v]) (2 / 10) t
                 else if stars_v > 100 then
                   credit (2 / 10) (Finding ''Growing community: {stars} stars'' [Num stars_v]) (15 / 100) t
                 else if stars_v > 10 then
                   credit (1 / 10) (Finding ''Early stage: {stars} stars'' [Num stars_v]) (1 / 10) t
                 else t);
            commits_v = get_or 0 (commits data);
            t = (if commits_v > 500 then
                   credit (2 / 10) (Finding ''Active development: {commits} commits'' [Num commits_v]) (2 / 10) t
                 else if commits_v > 100 then
                   credit (15 / 100) (Finding ''Moderate activity: {commits} commits'' [Num commits_v]) (15 / 100) t
                 else if commits_v > 10 then
                   credit (1 / 10) (Finding ''Starting development: {commits} commits'' [Num commits_v]) (1 / 10) t
                 else t);
            contributors_v = get_or 0 (contributors data);
            t = (if contributors_v > 20 then
                   credit (15 / 100) (Finding ''Large team: {contributors} contributors'' [Num contributors_v]) (15 / 100) t
                 else if contributors_v > 5 then
                   credit (1 / 10) (Finding ''Small team: {contributors} contributors'' [Num contributors_v]) (1 / 10) t
                 else if contributors_v > 0 then
                   credit (5 / 100) (Finding ''Solo/duo project: {contributors} contributors'' [Num contributors_v]) (5 / 100) t
                 else t);
            forks_v = get_or 0 (forks data);
            t = (if forks_v > 100 then
                   credit (15 / 100) (Finding ''High reusability: {forks} forks'' [Num forks_v]) (15 / 100) t
                 else if forks_v > 10 then
                   credit (1 / 10) (Finding ''Some reuse: {forks} forks'' [Num forks_v]) (1 / 10) t
                 else t);
            issues = get_or 0 (openIssues data);
            t = (if issues > 50 then
                   credit (1 / 10) (Finding ''Active community engagement: {issues} open issues'' [Num issues]) (1 / 10) t
                 else if issues > 10 then
                   credit (5 / 100) (Finding ''Growing engagement: {issues} open issues'' [Num issues]) (5 / 100) t
                 else t);
            last_update = get_or [] (lastUpdate data);
            t = (if last_update \<noteq> [] then
                   (case t of (sc, fs, cf) \<Rightarrow>
                      (sc, fs @ [Finding ''Last updated: {last_update}'' [Str last_update]],
                       float_add cf (binary64 (1 / 10))))
                 else t);
            language_v = get_or ''Unknown'' (language data)
        in (case t of (sc, fs, cf) \<Rightarrow>
             \<lparr>rt_score = py_round (py_min sc 1) 3,
              rt_confidence = py_round (py_min cf 1) 3,
              rt_findings = fs @ [Finding ''Primary language: {language}'' [Str language_v]],
              rt_category = ''tech_credibility'',
              rt_details = Some (stars_v, commits_v, contributors_v, forks_v, language_v)\<rparr>))"

text \<open>\<open>not social_data\<close> on a dictionary: it has no key, read or not.\<close>

definition social_data_empty :: "social_data \<Rightarrow> bool" where
  "social_data_empty d \<longleftrightarrow>
     twitter d = None \<and> hackathons d = None \<and> community_mentions d = None \<and>
     social_other_keys d = []"

definition analyze_social_realtime :: "social_data option \<Rightarrow> scorer_result" where
  "analyze_social_realtime social =
     (if (case social of None \<Rightarrow> True | Some d \<Rightarrow> social_data_empty d) then
        \<lparr>rt_score = binary64 (5 / 10), rt_confidence = binary64 (3 / 10),
         rt_findings = [Finding ''No social data available'' []],
         rt_category = ''social_signals'', rt_details = None\<rparr>
      else
        let d = the social;
            t = (0, [], 0);
            tw = get_or \<lparr>followers = None, engagement_rate = None\<rparr> (twitter d);
            followers_v = get_or 0 (followers tw);
            t = (if followers_v > 10000 then
                   credit (4 / 10) (Finding ''Strong social presence: {followers:,} followers'' [Num followers_v]) (3 / 10) t
                 else if followers_v > 1000 then
                   credit (3 / 10) (Finding ''Growing social presence: {followers:,} followers'' [Num followers_v]) (25 / 100) t
                 else if followers_v > 100 then
                   credit (2 / 10) (Finding ''Early social presence: {followers:,} followers'' [Num followers_v]) (2 / 10) t
                 else t);
            rate = get_or 0 (engagement_rate tw);
            t = (if rate > binary64 (5 / 100) then
                   credit (3 / 10) (Finding ''High engagement: {engagement_rate*100:.1f}%'' [Num (float_mul rate 100)]) (2 / 10) t
                 else if rate > binary64 (2 / 100) then
                   credit (2 / 10) (Finding ''Good engagement: {engagement_rate*100:.1f}%'' [Num (float_mul rate 100)]) (15 / 100) t
                 else t);
            wins = get_or [] (hackathons d);
            t = (if length wins > 0 then
                   credit (3 / 10) (Finding ''Hackathon wins: {len(hackathons)}'' [Num (of_nat (length wins))]) (3 / 10) t
                 else t);
            mentions = get_or 0 (community_mentions d);
            t = (if mentions > 100 then
                   credit (2 / 10) (Finding ''Active community: {mentions} mentions'' [Num mentions]) (2 / 10) t
                 else t)
        in (case t of (sc, fs, cf) \<Rightarrow>
             \<lparr>rt_score = py_round (py_min sc 1) 3,
              rt_confidence = py_round (py_min cf 1) 3,
              rt_findings = fs,
              rt_category = ''social_signals'', rt_details = None\<rparr>))"

text \<open>\<open>analyze_governance_realtime\<close> has no early return: it starts from zero and adds
  what it finds.\<close>

definition analyze_governance_realtime ::
    "founder_data option \<Rightarrow> governance_data option \<Rightarrow> scorer_result" where
  "analyze_governance_realtime founder governance =
     (let t = (0, [], 0);
          t = (case founder of
                 None \<Rightarrow> t
               | Some f \<Rightarrow>
                   if \<not> founder_success f then t
                   else
                     let data = get_or \<lparr>previousProjects = None, githubProfile = False\<rparr>
                                  (founder_info_data f);
                         previous_projects = get_or 0 (previousProjects data);
                         t = (if previous_projects > 3 then
                                credit (3 / 10) (Finding ''Experienced founder: {previous_projects} previous projects'' [Num previous_projects]) (25 / 100) t
                              else if previous_projects > 0 then
                                credit (2 / 10) (Finding ''Some experience: {previous_projects} previous projects'' [Num previous_projects]) (2 / 10) t
                              else t)
                     in if githubProfile data then
                          credit (2 / 10) (Finding ''Verified GitHub profile'' []) (2 / 10) t
                        else t);
          t = (case governance of
                 None \<Rightarrow> t
               | Some g \<Rightarrow>
                   let t = (if has_dao g then
                              credit (2 / 10) (Finding ''DAO governance implemented'' []) (2 / 10) t
                            else t);
                       t = (if transparent_voting g then
                              credit (15 / 100) (Finding ''Transparent voting system'' []) (15 / 100) t
                            else t)
                   in if public_roadmap g then
                        credit (15 / 100) (Finding ''Public roadmap available'' []) (15 / 100) t
                      else t)
      in (case t of (sc, fs, cf) \<Rightarrow>
           \<lparr>rt_score = py_round (py_min sc 1) 3,
            rt_confidence = py_round (py_min cf (binary64 (8 / 10))) 3,
            rt_findings = fs,
            rt_category = ''governance_transparency'', rt_details = None\<rparr>))"

text \<open>\<open>not onchain_data\<close> on a dictionary: it has no key, read or not.\<close>

definition onchain_data_empty :: "onchain_data \<Rightarrow> bool" where
  "onchain_data_empty d \<longleftrightarrow>
     transaction_count d = None \<and> contract_interactions d = None \<and> token_value_usd d = None \<and>
     onchain_other_keys d = []"

definition analyze_onchain_realtime :: "onchain_data option \<Rightarrow> scorer_result" where
  "analyze_onchain_realtime onchain =
     (if (case onchain of None \<Rightarrow> True | Some d \<Rightarrow> onchain_data_empty d) then
        \<lparr>rt_score = binary64 (5 / 10), rt_confidence = binary64 (3 / 10),
         rt_findings = [Finding ''No on-chain data available'' []],
         rt_category = ''onchain_behavior'', rt_details = None\<rparr>
      else
        let d = the onchain;
            t = (binary64 (5 / 10), [], binary64 (5 / 10));
            tx_count = get_or 0 (transaction_count d);
            t = (if tx_count > 1000 then
                   credit (2 / 10) (Finding ''High activity: {tx_count:,} transactions'' [Num tx_count]) (2 / 10) t
                 else if tx_count > 100 then
                   credit (15 / 100) (Finding ''Moderate activity: {tx_count:,} transactions'' [Num tx_count]) (15 / 100) t
                 else t);
            interactions = get_or 0 (contract_interactions d);
            t = (if interactions > 0 then
                   credit (15 / 100) (Finding ''DeFi engagement: {contract_interactions} interactions'' [Num interactions]) (15 / 100) t
                 else t);
            token_value = get_or 0 (token_value_usd d);
            t = (if token_value > 10000 then
                   credit (15 / 100) (Finding ''Significant holdings: ${token_value:,.0f}'' [Num token_value]) (15 / 100) t
                 else t)
        in (case t of (sc, fs, cf) \<Rightarrow>
             \<lparr>rt_score = py_round (py_min sc 1) 3,
              rt_confidence = py_round (py_min cf (binary64 (9 / 10))) 3,
              rt_findings = fs,
              rt_category = ''onchain_behavior'', rt_details = None\<rparr>))"

text \<open>One pass of the loop over the media files. The check mark and the warning sign that
  open these findings in the source are written \<open>+\<close> and \<open>!\<close> here.\<close>

definition analyze_media_file :: "tally \<Rightarrow> file_info \<Rightarrow> tally" where
  "analyze_media_file t file =
     (let name = get_or ''unknown'' (file_name file);
          t = (if has_metadata file then
                 credit (1 / 10) (Finding ''+ {file_name}: Valid metadata'' [Str name]) (1 / 10) t
               else t);
          t = (if hash_verified file then
                 credit (1 / 10) (Finding ''+ {file_name}: Hash verified on Walrus'' [Str name]) (15 / 100) t
               else t);
          manipulation = get_or (binary64 (1 / 10)) (manipulation_score file)
      in (case t of (sc, fs, cf) \<Rightarrow>
            if manipulation < binary64 (3 / 10) then
              (sc,
               fs @ [Finding ''+ {file_name}: Low manipulation probability ({manipulation_score*100:.1f}%)''
                       [Str name, Num (float_mul manipulation 100)]],
               float_add cf (binary64 (1 / 10)))
            else
              (float_sub sc (binary64 (2 / 10)),
               fs @ [Finding ''! {file_name}: Possible manipulation detected ({manipulation_score*100:.1f}%)''
                       [Str name, Num (float_mul manipulation 100)]],
               cf)))"

definition analyze_media_realtime :: "media_data option \<Rightarrow> scorer_result" where
  "analyze_media_realtime media =
     (if (case media of None \<Rightarrow> True | Some m \<Rightarrow> get_or [] (files m) = []) then
        \<lparr>rt_score = binary64 (7 / 10), rt_confidence = binary64 (5 / 10),
         rt_findings = [Finding ''No media files to analyze'' []],
         rt_category = ''media_authenticity'', rt_details = None\<rparr>
      else
        let fl = get_or [] (files (the media));
            t = (binary64 (7 / 10),
                 [Finding ''Analyzing {len(files)} media file(s)'' [Num (of_nat (length fl))]],
                 binary64 (6 / 10));
            t = foldl analyze_media_file t fl
        in (case t of (sc, fs, cf) \<Rightarrow>
             \<lparr>rt_score = py_round (py_max 0 (py_min sc 1)) 3,
              rt_confidence = py_round (py_min cf 1) 3,
              rt_findings = fs,
              rt_category = ''media_authenticity'', rt_details = None\<rparr>))"

datatype category =
  media_authenticity | tech_credibility | governance_transparency | onchain_behavior | social_signals

text \<open>\<open>self.weights\<close>, in the insertion order that every loop over it follows.\<close>

definition weights :: "(category \<times> rat) list" where
  "weights = [(media_authenticity, binary64 (30 / 100)), (tech_credibility, binary64 (20 / 100)),
              (governance_transparency, binary64 (20 / 100)), (onchain_behavior, binary64 (20 / 100)),
              (social_signals, binary64 (10 / 100))]"

datatype realtime_risk = low | medium | high

record category_entry =
  cat_score :: rat
  cat_weight :: rat
  cat_contribution :: rat
  cat_confidence :: rat

record realtime_result =
  trust_score_value :: rat
  overall_confidence :: rat
  realtime_risk_level :: realtime_risk
  risk_color :: string
  category_scores :: "(category \<times> category_entry) list"
  all_findings :: "finding list"
  timestamp :: string

text \<open>The result a category contributes: its own, or the default when it is missing.\<close>

definition category_result :: "(category \<rightharpoonup> scorer_result) \<Rightarrow> category \<Rightarrow> scorer_result" where
  "category_result category_results cat =
     get_or \<lparr>rt_score = binary64 (5 / 10), rt_confidence = binary64 (5 / 10), rt_findings = [],
             rt_category = [], rt_details = None\<rparr> (category_results cat)"

definition weighted_scores :: "(category \<rightharpoonup> scorer_result) \<Rightarrow> (category \<times> rat) list" where
  "weighted_scores category_results =
     map (\<lambda>(cat, weight). (cat, float_mul (rt_score (category_result category_results cat)) weight))
       weights"

text \<open>The variable \<open>final_score\<close>: \<open>sum(weighted_scores.values()) * 100\<close>, before rounding.\<close>

definition final_score :: "(category \<rightharpoonup> scorer_result) \<Rightarrow> rat" where
  "final_score category_results =
     float_mul (foldl float_add 0 (map snd (weighted_scores category_results))) 100"

definition calculate_final_score_realtime :: "(category \<rightharpoonup> scorer_result) \<Rightarrow> string \<Rightarrow> realtime_result" where
  "calculate_final_score_realtime category_results now_iso =
     (let ws = weighted_scores category_results;
          avg_confidence =
            foldl (\<lambda>acc (cat, weight).
                     float_add acc (float_mul (rt_confidence (category_result category_results cat)) weight))
                  0 weights;
          total = final_score category_results;
          (risk, color) =
            (if total \<ge> 75 then (low, ''green'')
             else if total \<ge> 50 then (medium, ''orange'')
             else (high, ''red''))
      in \<lparr>trust_score_value = py_round total 2,
          overall_confidence = py_round avg_confidence 3,
          realtime_risk_level = risk,
          risk_color = color,
          category_scores =
            map (\<lambda>(cat, weight).
                   (cat,
                    \<lparr>cat_score = py_round (float_mul (get_or (binary64 (5 / 10))
                                    (map_option rt_score (category_results cat))) 100) 2,
                     cat_weight = float_mul weight 100,
                     cat_contribution = py_round (float_mul (get_or 0 (map_of ws cat)) 100) 2,
                     cat_confidence = py_round (get_or (binary64 (5 / 10))
                                    (map_option rt_confidence (category_results cat))) 3\<rparr>))
                weights,
          all_findings = concat (map (\<lambda>(cat, weight). rt_findings (category_result category_results cat)) weights),
          timestamp = now_iso\<rparr>)"

section \<open>Concrete inputs\<close>

text \<open>
  A repository with seven commits in the look-back window, six of them by \<open>Alice\<close>, in
  ISO weeks 24, 21, 4, 4, 3 and 2 of 2024; the verification runs on 30 June 2024 at noon
  UTC, so the first two are within the last 90 days. The contributor statistics count 30
  commits in all.
\<close>

definition scenario_commit :: "int \<Rightarrow> nat \<Rightarrow> commit" where
  "scenario_commit t w =
     \<lparr>author_login = Some ''Alice'', commit_author_name = Some ''Alice Example'',
      commit_author_date = Some \<lparr>instant = t, isoweek = w\<rparr>\<rparr>"

definition other_commit :: commit where
  "other_commit =
     \<lparr>author_login = None, commit_author_name = Some ''bob'',
      commit_author_date = Some \<lparr>instant = 1706000400000000, isoweek = 4\<rparr>\<rparr>"

definition scenario_api :: github_api where
  "scenario_api =
     \<lparr>get_commits = (\<lambda>page. if page = 1 then
          \<lparr>status_code = 200,
           json = [scenario_commit 1718010000000000 24, other_commit,
                   scenario_commit 1716195600000000 21,
                   scenario_commit 1706000400000000 4, scenario_commit 1705914000000000 4,
                   scenario_commit 1705309200000000 3, scenario_commit 1704704400000000 2]\<rparr>
          else \<lparr>status_code = 200, json = []\<rparr>),
      get_repo = \<lparr>status_code = 200, json = ()\<rparr>,
      get_contributor_stats = \<lparr>status_code = 200, json = [Some 6, Some 24, None]\<rparr>\<rparr>"

definition scenario_now :: int where
  "scenario_now = 1719748800000000"

text \<open>The same repository when the contributor statistics are not ready (status 202), and
  when the repository request itself is refused (status 403).\<close>

definition stats_pending_api :: github_api where
  "stats_pending_api = scenario_api\<lparr>get_contributor_stats := \<lparr>status_code = 202, json = []\<rparr>\<rparr>"

definition repo_refused_api :: github_api where
  "repo_refused_api = stats_pending_api\<lparr>get_repo := \<lparr>status_code = 403, json = ()\<rparr>\<rparr>"

text \<open>
  A repository whose 26 commits are all by \<open>Alice\<close>, one each Monday at 09:00 UTC from
  1 January to 24 June 2024, that is in the ISO weeks 1 to 26; the contributor statistics
  count those 26 commits.
\<close>

definition steady_api :: github_api where
  "steady_api =
     \<lparr>get_commits = (\<lambda>page. if page = 1 then
          \<lparr>status_code = 200,
           json = map (\<lambda>w. scenario_commit (1704099600000000 + (int w - 1) * 604800000000) w)
                    (rev [1..<27])\<rparr>
          else \<lparr>status_code = 200, json = []\<rparr>),
      get_repo = \<lparr>status_code = 200, json = ()\<rparr>,
      get_contributor_stats = \<lparr>status_code = 200, json = [Some 26]\<rparr>\<rparr>"

text \<open>Analysis results that carry the three scores the fraud heuristic reads.\<close>

definition fraud_scores :: "rat \<Rightarrow> rat \<Rightarrow> rat \<Rightarrow> analysis_results" where
  "fraud_scores d c k =
     [''off_chain_analysis'' \<mapsto> [''score'' \<mapsto> d],
      ''on_chain_analysis'' \<mapsto> [''score'' \<mapsto> c],
      ''code_analysis'' \<mapsto> [''score'' \<mapsto> k]]"

text \<open>Signal dictionaries that are present but carry nothing.\<close>

definition failed_github :: github_data where
  "failed_github = \<lparr>github_success = False, github_repo_data = None\<rparr>"

definition empty_social :: social_data where
  "empty_social =
     \<lparr>twitter = None, hackathons = None, community_mentions = None, social_other_keys = []\<rparr>"

definition empty_onchain :: onchain_data where
  "empty_onchain =
     \<lparr>transaction_count = None, contract_interactions = None, token_value_usd = None,
      onchain_other_keys = []\<rparr>"

text \<open>Signal dictionaries whose only key is one that the scorer does not read.\<close>

definition discord_only_social :: social_data where
  "discord_only_social = empty_social\<lparr>social_other_keys := [''discord'']\<rparr>"

definition address_only_onchain :: onchain_data where
  "address_only_onchain = empty_onchain\<lparr>onchain_other_keys := [''address'']\<rparr>"

definition no_media_files :: media_data where
  "no_media_files = \<lparr>files = Some []\<rparr>"

section \<open>Properties of the float model\<close>

lemma bitlen_powi_bounds:
  assumes "0 < p"
  shows "(2::rat) powi (bitlen p - 1) \<le> of_int p" and "of_int p < (2::rat) powi (bitlen p)"
proof -
  have b: "1 \<le> bitlen p" using assms by (simp add: bitlen_alt_def)
  have "(2::int) ^ nat (bitlen p - 1) \<le> p" and "p < 2 ^ nat (bitlen p)"
    using bitlen_bounds [OF assms] by auto
  then have "(of_int (2 ^ nat (bitlen p - 1)) :: rat) \<le> of_int p"
    and "(of_int p :: rat) < of_int (2 ^ nat (bitlen p))"
    by (simp_all only: of_int_le_iff of_int_less_iff)
  then show "(2::rat) powi (bitlen p - 1) \<le> of_int p" and "of_int p < (2::rat) powi (bitlen p)"
    using b by (simp_all add: power_int_def)
qed

lemma ilog2_bounds:
  assumes "0 < x"
  shows "2 powi (ilog2 x) \<le> x \<and> x < 2 powi (ilog2 x + 1)"
proof -
  obtain p q where pq: "quotient_of x = (p, q)" by (cases "quotient_of x")
  have q: "0 < q" using pq by (rule quotient_of_denom_pos)
  have x: "x = of_int p / of_int q" using pq by (rule quotient_of_div)
  have p: "0 < p" using assms q x by (simp add: zero_less_divide_iff)
  let ?e = "bitlen p - bitlen q"
  note P = bitlen_powi_bounds [OF p] and Q = bitlen_powi_bounds [OF q]
  have qpos: "(0::rat) < of_int q" using q by simp
  have up: "x < 2 powi (?e + 1)"
  proof -
    have "of_int p < (2::rat) powi (bitlen p)" by (rule P(2))
    also have "\<dots> = 2 powi (?e + 1) * 2 powi (bitlen q - 1)"
      by (simp add: power_int_add [symmetric])
    also have "\<dots> \<le> 2 powi (?e + 1) * of_int q"
      using Q(1) by (simp add: mult_left_mono)
    finally show ?thesis using qpos by (simp add: x pos_divide_less_eq)
  qed
  have lo: "2 powi (?e - 1) \<le> x"
  proof -
    have "2 powi (?e - 1) * of_int q \<le> 2 powi (?e - 1) * (2::rat) powi (bitlen q)"
      using Q(2) by (simp add: mult_left_mono)
    also have "\<dots> = 2 powi (bitlen p - 1)"
      by (simp add: power_int_add [symmetric])
    also have "\<dots> \<le> of_int p" by (rule P(1))
    finally show ?thesis using qpos by (simp add: x pos_le_divide_eq)
  qed
  show ?thesis
  proof (cases "2 powi ?e \<le> x")
    case True
    then show ?thesis using up by (simp add: ilog2_def pq)
  next
    case False
    then show ?thesis using lo by (simp add: ilog2_def pq)
  qed
qed

lemma powi2_mono: "a \<le> b \<Longrightarrow> (2::rat) powi a \<le> 2 powi b"
  by (rule power_int_increasing) simp_all

lemma ilog2_unique:
  assumes "2 powi e \<le> x" and "x < 2 powi (e + 1)"
  shows "ilog2 x = e"
proof -
  have pos: "0 < x"
    using assms(1) by (meson less_le_trans zero_less_numeral zero_less_power_int)
  note B = ilog2_bounds [OF pos]
  have "\<not> ilog2 x + 1 \<le> e"
  proof
    assume "ilog2 x + 1 \<le> e"
    then have "(2::rat) powi (ilog2 x + 1) \<le> 2 powi e" by (rule powi2_mono)
    then show False using B assms(1) by linarith
  qed
  moreover have "\<not> e + 1 \<le> ilog2 x"
  proof
    assume "e + 1 \<le> ilog2 x"
    then have "(2::rat) powi (e + 1) \<le> 2 powi (ilog2 x)" by (rule powi2_mono)
    then show False using B assms(2) by linarith
  qed
  ultimately show ?thesis by linarith
qed


lemma floor_rat_numeral_div [simp]:
  "\<lfloor>(numeral a :: rat) / numeral b\<rfloor> = numeral a div numeral b"
  using floor_divide_of_int_eq [of "numeral a" "numeral b", where ?'a = rat] by simp

lemma floor_rat_neg_numeral_div [simp]:
  "\<lfloor>- ((numeral a :: rat) / numeral b)\<rfloor> = - numeral a div numeral b"
  using floor_divide_of_int_eq [of "- numeral a" "numeral b", where ?'a = rat] by simp

lemma binary64_eq:
  assumes "2 powi e \<le> \<bar>x\<bar>" and "\<bar>x\<bar> < 2 powi (e + 1)" and "- 1022 \<le> e"
  shows "binary64 x = of_int (round_half_even (x / 2 powi (e - 52))) * 2 powi (e - 52)"
proof -
  have "ilog2 \<bar>x\<bar> = e" using assms(1,2) by (rule ilog2_unique)
  then have u: "ulp x = 2 powi (e - 52)" using assms(3) by (simp add: ulp_def max_def)
  have "(0::rat) < 2 powi e" by simp
  with assms(1) have "0 < \<bar>x\<bar>" by linarith
  then have "x \<noteq> 0" by simp
  then show ?thesis by (simp add: binary64_def u)
qed

text \<open>The rounding of a number between \<open>2 ^ - 10\<close> and \<open>2 ^ 11\<close>, for evaluation by rewriting.\<close>

lemmas binary64_at =
  binary64_eq [where e = "- 10"]
  binary64_eq [where e = "- 9"]
  binary64_eq [where e = "- 8"]
  binary64_eq [where e = "- 7"]
  binary64_eq [where e = "- 6"]
  binary64_eq [where e = "- 5"]
  binary64_eq [where e = "- 4"]
  binary64_eq [where e = "- 3"]
  binary64_eq [where e = "- 2"]
  binary64_eq [where e = "- 1"]
  binary64_eq [where e = "0"]
  binary64_eq [where e = "1"]
  binary64_eq [where e = "2"]
  binary64_eq [where e = "3"]
  binary64_eq [where e = "4"]
  binary64_eq [where e = "5"]
  binary64_eq [where e = "6"]
  binary64_eq [where e = "7"]
  binary64_eq [where e = "8"]
  binary64_eq [where e = "9"]
  binary64_eq [where e = "10"]

lemmas float_ops = float_add_def float_sub_def float_mul_def float_div_def int_truediv_def
  py_round_def round_half_even_def Let_def








section \<open>The ownership verifier\<close>

lemma consistency_5_weeks: "py_int (py_min 100 (float_mul (int_truediv 5 52) 100)) = 9"
  by (simp add: float_mul_def int_truediv_def py_min_def py_int_def round_half_even_def Let_def
      binary64_eq [where e = "- 4"] binary64_eq [where e = 3])

lemma activity_2_recent: "py_int (py_min 100 (float_mul (int_truediv 2 10) 100)) = 20"
  by (simp add: float_mul_def int_truediv_def py_min_def py_int_def round_half_even_def Let_def
      binary64_eq [where e = "- 3"] binary64_eq [where e = 4])

lemma ownership_6_of_30: "py_min 100 (py_int (float_mul (int_truediv 6 30) 100)) = 20"
  by (simp add: float_mul_def int_truediv_def py_min_def py_int_def round_half_even_def Let_def
      binary64_eq [where e = "- 3"] binary64_eq [where e = 4])

lemma float_mul_1_100: "float_mul 1 100 = 100"
  by (simp add: float_mul_def round_half_even_def Let_def binary64_eq [where e = 6])

lemma int_truediv_self: "n \<noteq> 0 \<Longrightarrow> int_truediv n n = 1"
  by (simp add: int_truediv_def round_half_even_def Let_def binary64_eq [where e = 0])

lemma card_weeks_le_length: "card (isoweek ` set ds) \<le> length ds"
  by (metis card_image_le card_length le_trans List.finite_set)

lemma scenario_commits:
  "length (get_user_commits scenario_api ''alice'') = 6"
  "card (isoweek ` set (commit_dates_of (get_user_commits scenario_api ''alice''))) = 5"
  "length (filter (\<lambda>date. days_between scenario_now date \<le> 90)
     (commit_dates_of (get_user_commits scenario_api ''alice''))) = 2"
  "sum_list (map (get_or 0) (json (get_contributor_stats scenario_api))) = 30"
  by code_simp+

lemma six_commits_five_weeks:
  assumes "length (get_user_commits api username) = 6"
    and "card (isoweek ` set (commit_dates_of (get_user_commits api username))) = 5"
    and "length (filter (\<lambda>date. days_between now date \<le> 90)
           (commit_dates_of (get_user_commits api username))) = 2"
    and "status_code (get_repo api) = 200"
    and "status_code (get_contributor_stats api) = 200"
    and "sum_list (map (get_or 0) (json (get_contributor_stats api))) = 30"
  shows "ownership_score (analyze_commit_pattern api now username) = 20 \<and>
         consistency_score (analyze_commit_pattern api now username) = 9 \<and>
         activity_score (analyze_commit_pattern api now username) = 20 \<and>
         \<not> is_authentic (analyze_commit_pattern api now username)"
proof -
  let ?cs = "get_user_commits api username"
  let ?ds = "commit_dates_of ?cs"
  have ne: "?cs \<noteq> []" using assms(1) by auto
  have five: "5 \<le> length ?ds"
    using assms(2) card_weeks_le_length [of ?ds] by simp
  then have c: "calculate_consistency ?ds = 9"
    using assms(2) by (simp add: calculate_consistency_def Let_def consistency_5_weeks)
  have "?ds \<noteq> []" using five by auto
  then have a: "calculate_activity_score now ?ds = 20"
    using assms(3) by (simp add: calculate_activity_score_def Let_def activity_2_recent)
  have ow: "fst (calculate_ownership_score api 6) = (20, 30)"
    using assms(4-6) by (simp add: calculate_ownership_score_def Let_def ownership_6_of_30)
  show ?thesis
    using ne c a ow assms(1) by (simp add: analyze_commit_pattern_def Let_def split: prod.split)
qed

lemma consistency_26_weeks: "py_int (py_min 100 (float_mul (int_truediv 26 52) 100)) = 50"
  by (simp add: float_mul_def int_truediv_def py_min_def py_int_def round_half_even_def Let_def
      binary64_eq [where e = "- 1"] binary64_eq [where e = 5])

lemma steady_commits:
  "get_user_commits scenario_api ''carol'' = []"
  "length (get_user_commits steady_api ''alice'') = 26"
  "card (isoweek ` set (commit_dates_of (get_user_commits steady_api ''alice''))) = 26"
  "status_code (get_repo steady_api) = 200"
  "status_code (get_contributor_stats steady_api) = 200"
  "sum_list (map (get_or 0) (json (get_contributor_stats steady_api))) = 26"
  by code_simp+

lemma steady_scores:
  "calculate_consistency (commit_dates_of (get_user_commits steady_api ''alice'')) = 50"
  "fst (fst (calculate_ownership_score steady_api 26)) = 100"
proof -
  let ?ds = "commit_dates_of (get_user_commits steady_api ''alice'')"
  have "26 \<le> length ?ds"
    using steady_commits(3) card_weeks_le_length [of ?ds] by simp
  then show "calculate_consistency ?ds = 50"
    using steady_commits(3) by (simp add: calculate_consistency_def Let_def consistency_26_weeks)
  have "int_truediv 26 26 = 1" by (rule int_truediv_self) simp
  then show "fst (fst (calculate_ownership_score steady_api 26)) = 100"
    using steady_commits(4-6)
    by (simp add: calculate_ownership_score_def Let_def float_mul_1_100 py_min_def py_int_def)
qed

text \<open>
  C1. Every verdict reports the number of commits that match the claimed username, and, when
  there is one at least, the consistency score computed from the dates of these commits and
  the ownership score computed from their number. Its authenticity flag is the conjunction
  of the three thresholds on these values: at least 5 matched commits, a consistency score
  of at least 50 and an ownership score of at least 20. When no commit matches the claimed
  username, the ownership, activity and consistency scores are 0 and the verdict is not
  authentic.
\<close>

theorem analyze_commit_pattern_authentic:
  "user_commits (analyze_commit_pattern api now username)
     = int (length (get_user_commits api username)) \<and>
   (get_user_commits api username \<noteq> [] \<longrightarrow>
      consistency_score (analyze_commit_pattern api now username)
        = calculate_consistency (commit_dates_of (get_user_commits api username)) \<and>
      activity_score (analyze_commit_pattern api now username)
        = calculate_activity_score now (commit_dates_of (get_user_commits api username)) \<and>
      (ownership_score (analyze_commit_pattern api now username),
       total_commits (analyze_commit_pattern api now username))
        = fst (calculate_ownership_score api (int (length (get_user_commits api username))))) \<and>
   (is_authentic (analyze_commit_pattern api now username) \<longleftrightarrow>
      user_commits (analyze_commit_pattern api now username) \<ge> 5 \<and>
      consistency_score (analyze_commit_pattern api now username) \<ge> 50 \<and>
      ownership_score (analyze_commit_pattern api now username) \<ge> 20) \<and>
   (is_authentic (analyze_commit_pattern api now username) \<longleftrightarrow>
      length (get_user_commits api username) \<ge> 5 \<and>
      calculate_consistency (commit_dates_of (get_user_commits api username)) \<ge> 50 \<and>
      fst (fst (calculate_ownership_score api (int (length (get_user_commits api username))))) \<ge> 20) \<and>
   (get_user_commits api username = [] \<longrightarrow>
      ownership_score (analyze_commit_pattern api now username) = 0 \<and>
      activity_score (analyze_commit_pattern api now username) = 0 \<and>
      consistency_score (analyze_commit_pattern api now username) = 0 \<and>
      \<not> is_authentic (analyze_commit_pattern api now username))"
  by (auto simp add: analyze_commit_pattern_def Let_def split: prod.split)

theorem analyze_commit_pattern_authentic_witness:
  "get_user_commits scenario_api ''carol'' = [] \<and>
   user_commits (analyze_commit_pattern scenario_api scenario_now ''carol'') = 0 \<and>
   ownership_score (analyze_commit_pattern scenario_api scenario_now ''carol'') = 0 \<and>
   activity_score (analyze_commit_pattern scenario_api scenario_now ''carol'') = 0 \<and>
   consistency_score (analyze_commit_pattern scenario_api scenario_now ''carol'') = 0 \<and>
   \<not> is_authentic (analyze_commit_pattern scenario_api scenario_now ''carol'') \<and>
   get_user_commits steady_api ''alice'' \<noteq> [] \<and>
   user_commits (analyze_commit_pattern steady_api scenario_now ''alice'') = 26 \<and>
   consistency_score (analyze_commit_pattern steady_api scenario_now ''alice'') = 50 \<and>
   ownership_score (analyze_commit_pattern steady_api scenario_now ''alice'') = 100 \<and>
   total_commits (analyze_commit_pattern steady_api scenario_now ''alice'') = 26 \<and>
   is_authentic (analyze_commit_pattern steady_api scenario_now ''alice'')"
proof -
  have ne: "get_user_commits steady_api ''alice'' \<noteq> []"
    using steady_commits(2) by auto
  have t: "snd (fst (calculate_ownership_score steady_api 26)) = 26"
    using steady_commits(4-6) by (simp add: calculate_ownership_score_def Let_def)
  have o: "fst (calculate_ownership_score steady_api 26) = (100, 26)"
    using steady_scores(2) t by (simp add: prod_eq_iff)
  show ?thesis
    using analyze_commit_pattern_authentic [of scenario_api scenario_now "''carol''"]
      analyze_commit_pattern_authentic [of steady_api scenario_now "''alice''"]
      steady_commits(1) ne
    by (simp add: steady_commits(2) steady_scores(1) o)
qed

text \<open>
  C2, as the code has it. With 6 matched commits in 5 distinct ISO weeks, 2 of them in the
  last 90 days, and 30 commits in the repository, the verdict has ownership score 20,
  consistency score 9 (\<open>int\<close> truncates \<open>100 * 5 / 52 = 9.6\<close>), activity score 20, and is
  not authentic.
\<close>

theorem scenario_scores:
  assumes "length (get_user_commits api username) = 6"
    and "card (isoweek ` set (commit_dates_of (get_user_commits api username))) = 5"
    and "length (filter (\<lambda>date. days_between now date \<le> 90)
           (commit_dates_of (get_user_commits api username))) = 2"
    and "status_code (get_repo api) = 200"
    and "status_code (get_contributor_stats api) = 200"
    and "sum_list (map (get_or 0) (json (get_contributor_stats api))) = 30"
  shows "ownership_score (analyze_commit_pattern api now username) = 20 \<and>
         consistency_score (analyze_commit_pattern api now username) = 9 \<and>
         activity_score (analyze_commit_pattern api now username) = 20 \<and>
         \<not> is_authentic (analyze_commit_pattern api now username)"
  using assms by (rule six_commits_five_weeks)

theorem scenario_scores_witness:
  "ownership_score (analyze_commit_pattern scenario_api scenario_now ''alice'') = 20 \<and>
   consistency_score (analyze_commit_pattern scenario_api scenario_now ''alice'') = 9 \<and>
   activity_score (analyze_commit_pattern scenario_api scenario_now ''alice'') = 20 \<and>
   \<not> is_authentic (analyze_commit_pattern scenario_api scenario_now ''alice'')"
proof -
  have r: "status_code (get_repo scenario_api) = 200"
    and s: "status_code (get_contributor_stats scenario_api) = 200"
    by (simp_all add: scenario_api_def)
  show ?thesis
    by (rule scenario_scores [OF scenario_commits(1-3) r s scenario_commits(4)])
qed

text \<open>
  C2, as the specification words it, fails: on the scenario input the consistency score
  is not 10.
\<close>

theorem scenario_consistency_counterexample:
  "consistency_score (analyze_commit_pattern scenario_api scenario_now ''alice'') \<noteq> 10"
proof -
  have r: "status_code (get_repo scenario_api) = 200"
    and s: "status_code (get_contributor_stats scenario_api) = 200"
    by (simp_all add: scenario_api_def)
  have "consistency_score (analyze_commit_pattern scenario_api scenario_now ''alice'') = 9"
    using six_commits_five_weeks [OF scenario_commits(1-3) r s scenario_commits(4)] by blast
  then show ?thesis by simp
qed

lemma stats_pending_facts:
  "GetContributorStats \<in> set (snd (calculate_ownership_score stats_pending_api 6))"
  "status_code (get_contributor_stats stats_pending_api) \<noteq> 200"
  "get_user_commits stats_pending_api ''alice'' \<noteq> []"
  by code_simp+

text \<open>
  C3. Whenever the contributor-statistics request is sent and answered with a status other
  than 200, the ownership computation returns the score 50 and the caller's own commit
  count as the total; the verification then still produces its verdict, with ownership
  score 50 and a total equal to the matched commit count.
\<close>

theorem ownership_fallback:
  assumes "GetContributorStats \<in> set (snd (calculate_ownership_score api n))"
    and "status_code (get_contributor_stats api) \<noteq> 200"
  shows "fst (calculate_ownership_score api n) = (50, n) \<and>
         (get_user_commits api username \<noteq> [] \<longrightarrow>
            ownership_score (analyze_commit_pattern api now username) = 50 \<and>
            total_commits (analyze_commit_pattern api now username)
              = user_commits (analyze_commit_pattern api now username))"
proof -
  have r: "status_code (get_repo api) = 200"
    using assms(1) by (auto simp: calculate_ownership_score_def split: if_splits)
  then have f: "\<And>m. fst (calculate_ownership_score api m) = (50, m)"
    using assms(2) by (simp add: calculate_ownership_score_def)
  show ?thesis
    using f by (simp add: analyze_commit_pattern_def Let_def split: prod.split)
qed

theorem ownership_fallback_witness:
  "fst (calculate_ownership_score stats_pending_api 6) = (50, 6) \<and>
   ownership_score (analyze_commit_pattern stats_pending_api scenario_now ''alice'') = 50 \<and>
   total_commits (analyze_commit_pattern stats_pending_api scenario_now ''alice'')
     = user_commits (analyze_commit_pattern stats_pending_api scenario_now ''alice'')"
  using ownership_fallback [OF stats_pending_facts(1,2), of "''alice''" scenario_now]
    stats_pending_facts(3)
  by blast

text \<open>
  C10. When the repository request is answered with a status other than 200, the ownership
  computation returns score 0 and total 0 and never asks for the contributor statistics. It
  returns the pair of 50 and the caller's own commit count exactly when the repository
  request succeeds and the contributor-statistics request does not.
\<close>

theorem ownership_repo_failure:
  "(status_code (get_repo api) \<noteq> 200 \<longrightarrow>
      calculate_ownership_score api n = ((0, 0), [GetRepo])) \<and>
   (fst (calculate_ownership_score api n) = (50, n) \<longleftrightarrow>
      status_code (get_repo api) = 200 \<and> status_code (get_contributor_stats api) \<noteq> 200)"
proof -
  have "py_min 100 (py_int (float_mul (int_truediv n n) 100)) \<noteq> 50" if "n \<noteq> 0"
    using that by (simp add: int_truediv_self float_mul_1_100 py_min_def py_int_def)
  then show ?thesis
    by (auto simp: calculate_ownership_score_def Let_def)
qed

theorem ownership_repo_failure_witness:
  "status_code (get_repo repo_refused_api) \<noteq> 200 \<and>
   status_code (get_contributor_stats repo_refused_api) \<noteq> 200 \<and>
   calculate_ownership_score repo_refused_api 6 = ((0, 0), [GetRepo])"
proof -
  have h: "status_code (get_repo repo_refused_api) \<noteq> 200"
    and k: "status_code (get_contributor_stats repo_refused_api) \<noteq> 200"
    by (simp_all add: repo_refused_api_def stats_pending_api_def)
  show ?thesis
    using h k ownership_repo_failure [of repo_refused_api 6] by blast
qed

section \<open>The trust scorer\<close>

lemma weight_values:
  "weight_off_chain = 3602879701896397 / 9007199254740992"
  "weight_on_chain = 3602879701896397 / 9007199254740992"
  "weight_ai_analysis = 3602879701896397 / 18014398509481984"
  by (simp_all add: weight_off_chain_def weight_on_chain_def weight_ai_analysis_def
      round_half_even_def Let_def binary64_at)

lemma weighted_score_90_85_88: "weighted_score 90 85 88 = 3082150994981683 / 35184372088832"
  by (simp add: weighted_score_def weight_values float_ops binary64_at)

lemma float_876: "binary64 (876 / 10) = 3082150994981683 / 35184372088832"
  by (simp add: float_ops binary64_at)

lemma float_878: "binary64 (878 / 10) = 6178375738798899 / 70368744177664"
  by (simp add: float_ops binary64_at)

lemma overall_90_85_88:
  "overall_score (calculate_final_score 90 85 88) = 3082150994981683 / 35184372088832"
  by (simp add: calculate_final_score_def Let_def weighted_score_90_85_88 split: prod.split)
    (simp add: float_ops binary64_at)

lemma variance_90_85_88:
  "score_variance (3082150994981683 / 35184372088832) [90, 85, 88]
     = 4758803606254825 / 1125899906842624"
  by (simp add: score_variance_def float_ops binary64_at)

lemma weighted_score_50_50_71: "weighted_score 50 50 71 = 3813985934429389 / 70368744177664"
  by (simp add: weighted_score_def weight_values float_ops binary64_at)

lemma variance_50_50_71:
  "score_variance (3813985934429389 / 70368744177664) [50, 50, 71]
     = 1861956970940989 / 17592186044416"
  by (simp add: score_variance_def float_ops binary64_at)

lemma variance_about_mean_50_50_71:
  "score_variance (float_div (float_add (float_add 50 50) 71) 3) [50, 50, 71] = 98"
  by (simp add: score_variance_def float_ops binary64_at)

text \<open>
  C5. The risk tier is a fixed threshold lookup on the weighted sum: in the 3-category
  profile 80 and above is LOW, 60 and above MEDIUM, 40 and above HIGH, anything else
  CRITICAL; in the realtime profile 75 and above is low, 50 and above medium, anything
  else high.
\<close>

theorem risk_tier_lookup:
  "risk_level (calculate_final_score off on ai) =
     (if weighted_score off on ai \<ge> 80 then LOW
      else if weighted_score off on ai \<ge> 60 then MEDIUM
      else if weighted_score off on ai \<ge> 40 then HIGH else CRITICAL) \<and>
   realtime_risk_level (calculate_final_score_realtime category_results now_iso) =
     (if final_score category_results \<ge> 75 then low
      else if final_score category_results \<ge> 50 then medium else high)"
  by (simp add: calculate_final_score_def calculate_final_score_realtime_def Let_def
      split: prod.split)

text \<open>
  C6, as the code has it. The confidence tier comes from the variance of the three category
  scores around the weighted sum: below 100 is HIGH, below 400 MEDIUM, anything else LOW.
  For the scores 90, 85 and 88 the reported overall score is 87.6, the confidence HIGH and
  the risk LOW. That the centre is the weighted sum and not the mean shows on the scores
  50, 50 and 71: their variance around their mean is 98, yet the confidence is MEDIUM.
\<close>

theorem confidence_tier_from_variance:
  "confidence (calculate_final_score off on ai) =
     (if score_variance (weighted_score off on ai) [off, on, ai] < 100 then HIGH_CONFIDENCE
      else if score_variance (weighted_score off on ai) [off, on, ai] < 400 then MEDIUM_CONFIDENCE
      else LOW_CONFIDENCE) \<and>
   overall_score (calculate_final_score 90 85 88) = binary64 (876 / 10) \<and>
   confidence (calculate_final_score 90 85 88) = HIGH_CONFIDENCE \<and>
   risk_level (calculate_final_score 90 85 88) = LOW \<and>
   score_variance (float_div (float_add (float_add 50 50) 71) 3) [50, 50, 71] < 100 \<and>
   confidence (calculate_final_score 50 50 71) = MEDIUM_CONFIDENCE"
proof -
  have general: "confidence (calculate_final_score off on ai) =
     (if score_variance (weighted_score off on ai) [off, on, ai] < 100 then HIGH_CONFIDENCE
      else if score_variance (weighted_score off on ai) [off, on, ai] < 400 then MEDIUM_CONFIDENCE
      else LOW_CONFIDENCE)" for off on ai
    by (simp add: calculate_final_score_def Let_def split: prod.split)
  have s1: "overall_score (calculate_final_score 90 85 88) = binary64 (876 / 10)"
    by (simp only: overall_90_85_88 float_876)
  have s2: "confidence (calculate_final_score 90 85 88) = HIGH_CONFIDENCE"
    by (simp add: general weighted_score_90_85_88 variance_90_85_88)
  have s3: "risk_level (calculate_final_score 90 85 88) = LOW"
    by (simp add: calculate_final_score_def Let_def weighted_score_90_85_88 split: prod.split)
  have s4: "score_variance (float_div (float_add (float_add 50 50) 71) 3) [50, 50, 71] < 100"
    by (simp add: variance_about_mean_50_50_71)
  have s5: "confidence (calculate_final_score 50 50 71) = MEDIUM_CONFIDENCE"
    by (simp add: general weighted_score_50_50_71 variance_50_50_71)
  show ?thesis
    using general s1 s2 s3 s4 s5 by blast
qed

text \<open>
  C6, as the specification words it, fails: the overall score of the scenario is not 87.8.
\<close>

theorem scenario_overall_counterexample:
  "overall_score (calculate_final_score 90 85 88) \<noteq> binary64 (878 / 10)"
  unfolding overall_90_85_88 float_878 by simp

text \<open>
  C7. The fraud likelihood is the sum of three independent contributions, 30 for a documents
  score below 30, 40 for an on-chain score below 20 and 30 for a code score below 20, capped
  at 100. It never exceeds 100, and it does not decrease when any of the three scores
  decreases.
\<close>

theorem fraud_likelihood_additive:
  "calculate_fraud_likelihood r =
      min 100 ((if analysis_score r ''off_chain_analysis'' < 30 then 30 else 0) +
               (if analysis_score r ''on_chain_analysis'' < 20 then 40 else 0) +
               (if analysis_score r ''code_analysis'' < 20 then 30 else 0)) \<and>
   calculate_fraud_likelihood r \<le> 100 \<and>
   (\<forall>r'. analysis_score r' ''off_chain_analysis'' \<le> analysis_score r ''off_chain_analysis'' \<and>
         analysis_score r' ''on_chain_analysis'' \<le> analysis_score r ''on_chain_analysis'' \<and>
         analysis_score r' ''code_analysis'' \<le> analysis_score r ''code_analysis''
      \<longrightarrow> calculate_fraud_likelihood r \<le> calculate_fraud_likelihood r')"
  by (auto simp: calculate_fraud_likelihood_def Let_def py_min_def)

lemma analysis_score_fraud_scores:
  "analysis_score (fraud_scores d c k) ''off_chain_analysis'' = d"
  "analysis_score (fraud_scores d c k) ''on_chain_analysis'' = c"
  "analysis_score (fraud_scores d c k) ''code_analysis'' = k"
  by (simp_all add: analysis_score_def fraud_scores_def get_or_def)

theorem fraud_likelihood_additive_witness:
  "calculate_fraud_likelihood (fraud_scores 50 25 10) = 30 \<and>
   calculate_fraud_likelihood (fraud_scores 20 25 10) = 60 \<and>
   calculate_fraud_likelihood (fraud_scores 50 25 10)
     \<le> calculate_fraud_likelihood (fraud_scores 20 25 10)"
  using fraud_likelihood_additive [of "fraud_scores 50 25 10"]
    fraud_likelihood_additive [of "fraud_scores 20 25 10"]
  by (simp add: analysis_score_fraud_scores)

section \<open>Auditing the breakdown\<close>

subsection \<open>Rounding errors of the two aggregations\<close>








subsection \<open>The round trip from the breakdown to the overall score\<close>





section \<open>The realtime scorer\<close>

lemma float_literals:
  "binary64 (5 / 10) = 1 / 2"
  "binary64 (3 / 10) = 5404319552844595 / 18014398509481984"
  "binary64 (7 / 10) = 3152519739159347 / 4503599627370496"
  by (simp_all add: float_ops binary64_at)

text \<open>
  C8, as the code has it. Without data (no dictionary, a GitHub dictionary without success,
  a social or on-chain dictionary with no key at all), the GitHub, social and on-chain
  scorers return the score 0.5 with confidence 0.3; the media scorer, without data or
  without files, returns the score 0.7 with confidence 0.5.
\<close>

theorem missing_signal_defaults:
  "rt_score (analyze_github_realtime None) = binary64 (5 / 10) \<and>
   rt_confidence (analyze_github_realtime None) = binary64 (3 / 10) \<and>
   (\<not> github_success g \<longrightarrow>
      rt_score (analyze_github_realtime (Some g)) = binary64 (5 / 10) \<and>
      rt_confidence (analyze_github_realtime (Some g)) = binary64 (3 / 10)) \<and>
   rt_score (analyze_social_realtime None) = binary64 (5 / 10) \<and>
   rt_confidence (analyze_social_realtime None) = binary64 (3 / 10) \<and>
   (social_data_empty s \<longrightarrow>
      rt_score (analyze_social_realtime (Some s)) = binary64 (5 / 10) \<and>
      rt_confidence (analyze_social_realtime (Some s)) = binary64 (3 / 10)) \<and>
   rt_score (analyze_onchain_realtime None) = binary64 (5 / 10) \<and>
   rt_confidence (analyze_onchain_realtime None) = binary64 (3 / 10) \<and>
   (onchain_data_empty c \<longrightarrow>
      rt_score (analyze_onchain_realtime (Some c)) = binary64 (5 / 10) \<and>
      rt_confidence (analyze_onchain_realtime (Some c)) = binary64 (3 / 10)) \<and>
   rt_score (analyze_media_realtime None) = binary64 (7 / 10) \<and>
   rt_confidence (analyze_media_realtime None) = binary64 (5 / 10) \<and>
   (get_or [] (files m) = [] \<longrightarrow>
      rt_score (analyze_media_realtime (Some m)) = binary64 (7 / 10) \<and>
      rt_confidence (analyze_media_realtime (Some m)) = binary64 (5 / 10))"
  by (simp add: analyze_github_realtime_def analyze_social_realtime_def
      analyze_onchain_realtime_def analyze_media_realtime_def)

theorem missing_signal_defaults_witness:
  "\<not> github_success failed_github \<and> social_data_empty empty_social \<and>
   onchain_data_empty empty_onchain \<and> get_or [] (files no_media_files) = [] \<and>
   rt_score (analyze_github_realtime (Some failed_github)) = binary64 (5 / 10) \<and>
   rt_confidence (analyze_social_realtime (Some empty_social)) = binary64 (3 / 10) \<and>
   rt_score (analyze_onchain_realtime (Some empty_onchain)) = binary64 (5 / 10) \<and>
   rt_confidence (analyze_media_realtime (Some no_media_files)) = binary64 (5 / 10)"
proof -
  have h: "\<not> github_success failed_github" "social_data_empty empty_social"
    "onchain_data_empty empty_onchain" "get_or [] (files no_media_files) = []"
    by (simp_all add: failed_github_def empty_social_def empty_onchain_def no_media_files_def
        social_data_empty_def onchain_data_empty_def get_or_def)
  show ?thesis
    using h missing_signal_defaults [of failed_github empty_social empty_onchain no_media_files]
    by blast
qed

text \<open>
  C8, as the specification words it, fails on the media scorer: without data it does not
  return the score 0.5 with confidence 0.3.
\<close>

theorem media_default_counterexample:
  "\<not> (rt_score (analyze_media_realtime None) = binary64 (5 / 10) \<and>
      rt_confidence (analyze_media_realtime None) = binary64 (3 / 10))"
proof -
  have "rt_score (analyze_media_realtime None) = binary64 (7 / 10)"
    by (simp add: analyze_media_realtime_def)
  then show ?thesis
    unfolding float_literals by simp
qed

text \<open>The governance scorer has no default at all: without data it returns zero.\<close>

lemma governance_without_data:
  "rt_score (analyze_governance_realtime None None) = 0 \<and>
   rt_confidence (analyze_governance_realtime None None) = 0"
proof -
  have z: "binary64 0 = 0" by (simp add: binary64_def)
  have p: "0 < binary64 (8 / 10)" by (simp add: float_ops binary64_at)
  have r: "py_round 0 3 = 0" by (simp add: py_round_def round_half_even_def z)
  have m: "py_min (0::rat) 1 = 0" "py_min 0 (binary64 (8 / 10)) = 0"
    using p by (simp_all add: py_min_def)
  show ?thesis
    by (simp only: analyze_governance_realtime_def Let_def option.case prod.case m r
        scorer_result.simps simp_thms)
qed

text \<open>A dictionary that holds only keys the scorer does not read is not missing data: the
  social scorer then returns zero, the on-chain scorer its starting values.\<close>

lemma unread_keys_are_data:
  "\<not> social_data_empty discord_only_social"
  "rt_score (analyze_social_realtime (Some discord_only_social)) = 0"
  "rt_confidence (analyze_social_realtime (Some discord_only_social)) = 0"
  "\<not> onchain_data_empty address_only_onchain"
  "rt_score (analyze_onchain_realtime (Some address_only_onchain)) = binary64 (5 / 10)"
  "rt_confidence (analyze_onchain_realtime (Some address_only_onchain)) = binary64 (5 / 10)"
proof -
  have z: "binary64 0 = 0" by (simp add: binary64_def)
  have r: "py_round 0 3 = 0" by (simp add: py_round_def round_half_even_def z)
  have h: "py_round (1 / 2) 3 = 1 / 2" by (simp add: float_ops binary64_at)
  have m: "py_min (0::rat) 1 = 0" "py_min (1 / 2 :: rat) 1 = 1 / 2"
    "py_min (1 / 2) (binary64 (9 / 10)) = 1 / 2"
    by (simp_all add: py_min_def float_ops binary64_at)
  have b: "binary64 (1 / 2) = 1 / 2" by (simp add: float_ops binary64_at)
  have q: "\<not> binary64 (1 / 20) < 0" "\<not> binary64 (1 / 50) < 0"
    by (simp_all add: float_ops binary64_at)
  show "\<not> social_data_empty discord_only_social"
    by (simp add: social_data_empty_def discord_only_social_def)
  then show "rt_score (analyze_social_realtime (Some discord_only_social)) = 0"
    "rt_confidence (analyze_social_realtime (Some discord_only_social)) = 0"
    by (simp_all add: analyze_social_realtime_def Let_def get_or_def discord_only_social_def
        empty_social_def m r q)
  show "\<not> onchain_data_empty address_only_onchain"
    by (simp add: onchain_data_empty_def address_only_onchain_def)
  then show "rt_score (analyze_onchain_realtime (Some address_only_onchain)) = binary64 (5 / 10)"
    "rt_confidence (analyze_onchain_realtime (Some address_only_onchain)) = binary64 (5 / 10)"
    by (simp_all add: analyze_onchain_realtime_def Let_def get_or_def address_only_onchain_def
        empty_onchain_def b m h)
qed
end
